theory Spec2Isabelle
  imports Main
begin

section \<open>Shared data model\<close>

text \<open>
  The Go sources are I/O code: every function of interest talks to a socket, an HTTP
  response writer, the store or a library. The embedding keeps the control flow of each
  function as it is written and makes the I/O explicit:
  \<^item> the result of every call that leaves the function (a library call, a call into a
    file of the repository that is not among the sources) is an argument of the model,
    so a theorem that quantifies over it holds for whatever that call returns;
  \<^item> every effect the function has on the outside is an \<open>event\<close>; a run of a function
    is the list of its events, in program order;
  \<^item> a Go \<open>error\<close> is the text \<open>err.Error()\<close> gives, a \<open>(value, error)\<close> pair is a sum
    with \<open>Inl\<close> for the error.
\<close>

type_synonym error = string

text \<open>
  \<open>fmt.Sprintf("%d", i)\<close> for a Go \<open>int\<close>: the decimal digits, most significant
  first, with a minus sign in front of a negative number.
\<close>

fun nat_dec :: "nat \<Rightarrow> string" where
  "nat_dec n =
     (if n < 10 then [''0123456789'' ! n]
      else nat_dec (n div 10) @ [''0123456789'' ! (n mod 10)])"

declare nat_dec.simps [simp del]

definition fmt_d :: "int \<Rightarrow> string" where
  "fmt_d i = (if i < 0 then CHR ''-'' # nat_dec (nat (- i)) else nat_dec (nat i))"

text \<open>
  The fields of \<open>Tunnel\<close> that the sources read (the type is declared in a file that is
  not among them). Ports are Go \<open>int\<close>s.
\<close>

record Tunnel =
  TunnelPort :: int
  ClientAddress :: string
  ClientPort :: int
  TlsTermination :: string
  AuthUsername :: string
  AuthPassword :: string

text \<open>
  The parts of \<open>*http.Request\<close> the handlers read. \<open>URLRequestURI\<close> is what
  \<open>r.URL.RequestURI()\<close> returns and \<open>BasicAuth\<close> what \<open>r.BasicAuth()\<close> returns
  (\<open>None\<close> when its \<open>ok\<close> is false); \<open>Body\<close> is the result of reading \<open>r.Body\<close>
  to its end.
\<close>

type_synonym header = "string \<rightharpoonup> string list"

record Request =
  Method :: string
  Host :: string
  RequestURI :: string
  URLRequestURI :: string
  Header :: header
  BasicAuth :: "(string \<times> string) option"
  Body :: "error + string"

text \<open>The request \<open>proxyRequest\<close> builds for the backend, and the backend's answer.\<close>

record UpstreamRequest =
  uMethod :: string
  uURL :: string
  uBody :: string
  uHeader :: header
  uHost :: string

record Response =
  StatusCode :: int
  RespHeader :: "(string \<times> string list) list"
  RespBody :: string

text \<open>
  Connections: the socket the accept loop returned, the replaying connection
  \<open>NewProxyConn(clientConn, clientReader)\<close> built on it, and a connection dialed to an
  address.
\<close>

datatype conn = Accepted nat | ProxyConn conn | Dialed string

text \<open>
  Events, named after the calls that cause them. \<open>Splice a b\<close> stands for the two
  goroutines of \<open>passthroughRequest\<close> and the wait for both: \<open>io.Copy\<close> in each
  direction between \<open>a\<close> and \<open>b\<close>, each followed by \<open>CloseWrite\<close> on its destination;
  their interleaving is not modelled.
\<close>

datatype event =
    LogPrint string
  | FmtPrintln string
  | SetHeader string "string list"
  | WriteHeader int
  | WriteString string
  | Sleep nat
  | ReadAllBody
  | NewRequest string string
  | ClientDo UpstreamRequest
  | IoCopy string
  | CloseBody
  | HttpRedirect string int
  | PeekClientHello conn
  | Dial string
  | Splice conn conn
  | Close conn
  | PassConn conn
  | DeleteDNSRequest string
  | SetAdminDomain string
  | OAuthExchange string
  | HttpGet string
  | ManageSync "string list"

text \<open>
  The status an HTTP client receives: the code of the first \<open>WriteHeader\<close>, or of the
  \<open>http.Redirect\<close> that comes first; a write to a writer whose header is not written
  yet sends 200.
\<close>

fun status_of :: "event list \<Rightarrow> int option" where
  "status_of [] = None"
| "status_of (WriteHeader c # es) = Some c"
| "status_of (HttpRedirect u c # es) = Some c"
| "status_of (WriteString s # es) = Some 200"
| "status_of (IoCopy s # es) = Some 200"
| "status_of (e # es) = status_of es"

text \<open>
  \<open>hexEscapeNonASCII\<close> of net/http: every byte from 0x80 on is replaced by \<open>%\<close> and its
  value in lower-case hexadecimal (\<open>strconv.AppendInt(b, int64(s[i]), 16)\<close>), every other
  byte is kept.
\<close>

fun nat_hex :: "nat \<Rightarrow> string" where
  "nat_hex n =
     (if n < 16 then [''0123456789abcdef'' ! n]
      else nat_hex (n div 16) @ [''0123456789abcdef'' ! (n mod 16)])"

declare nat_hex.simps [simp del]

definition hexEscapeNonASCII :: "string \<Rightarrow> string" where
  "hexEscapeNonASCII s =
     concat (map (\<lambda>c. if (128::nat) \<le> of_char c then CHR ''%'' # nat_hex (of_char c) else [c]) s)"

definition isASCII :: "string \<Rightarrow> bool" where
  "isASCII s = list_all (\<lambda>c. of_char c < (128::nat)) s"

text \<open>
  The \<open>Location\<close> header an HTTP client receives from a run whose response is written by
  \<open>http.Redirect\<close> with a URL that starts with \<open>https://\<close>: \<open>http.Redirect\<close> sets the header
  to \<open>hexEscapeNonASCII(url)\<close> (a URL with a scheme is not made relative to the request's
  path). No function of the sources sets \<open>Location\<close> in another way; a run that writes its
  header otherwise sends none, and a redirect to a URL of another form is not covered
  (\<open>None\<close>).
\<close>

fun location_of :: "event list \<Rightarrow> string option" where
  "location_of [] = None"
| "location_of (HttpRedirect u c # es) =
     (if take 8 u = ''https://'' then Some (hexEscapeNonASCII u) else None)"
| "location_of (WriteHeader c # es) = None"
| "location_of (WriteString s # es) = None"
| "location_of (IoCopy s # es) = None"
| "location_of (e # es) = location_of es"

section \<open>The HTTP port: redirect to HTTPS\<close>

text \<open>
  \<open>redirectTLS\<close>, the closure of \<open>Listen\<close> (boringproxy.go, lines 426-429), and the
  server goroutine around it (lines 419-436): with \<open>allowHttp\<close> the port is served by
  the default mux (\<open>http.ListenAndServe(addr, nil)\<close>), otherwise by \<open>redirectTLS\<close> alone.
  The default mux is a parameter.
\<close>

definition redirectTLS :: "int \<Rightarrow> Request \<Rightarrow> event list" where
  "redirectTLS httpsPort r =
     (let url = ''https://'' @ Host r @ '':'' @ fmt_d httpsPort @ RequestURI r
      in [HttpRedirect url 301])"

definition serveHttpPort :: "bool \<Rightarrow> int \<Rightarrow> (Request \<Rightarrow> event list) \<Rightarrow> Request \<Rightarrow> event list" where
  "serveHttpPort allowHttp httpsPort defaultMux r =
     (if allowHttp then defaultMux r else redirectTLS httpsPort r)"

text \<open>
  The earlier \<open>redirectTLS\<close> (unnamed/part_000, lines 156-160): the port is the
  constant 443, and the URL is logged first.
\<close>

definition redirectTLS_443 :: "Request \<Rightarrow> event list" where
  "redirectTLS_443 r =
     (let url = ''https://'' @ Host r @ '':443'' @ RequestURI r
      in [LogPrint (''redir '' @ url), HttpRedirect url 301])"

text \<open>
  A request for an ACME HTTP-01 challenge: its path starts with
  \<open>/.well-known/acme-challenge/\<close>.
\<close>

definition isAcmeChallenge :: "Request \<Rightarrow> bool" where
  "isAcmeChallenge r = (take 28 (RequestURI r) = ''/.well-known/acme-challenge/'')"

text \<open>A plain GET request, for the examples.\<close>

definition get_request :: "string \<Rightarrow> string \<Rightarrow> Request" where
  "get_request h uri =
     \<lparr>Method = ''GET'', Host = h, RequestURI = uri, URLRequestURI = uri,
      Header = Map.empty, BasicAuth = None, Body = Inr ''''\<rparr>"

section \<open>The edge dispatcher\<close>

text \<open>
  \<open>peekClientHello\<close> returns the ClientHello, of which only \<open>ServerName\<close> is read, or an
  error. The registry \<open>p.db.GetTunnel\<close> is a map from the name to the tunnel: \<open>exists\<close>
  is false where the map has no entry.
\<close>

record ClientHelloInfo =
  ServerName :: string

text \<open>
  \<open>passthroughRequest\<close> (boringproxy.go, lines 477-503). \<open>dialErr\<close> is the error of
  \<open>net.Dial("tcp", upstreamAddr)\<close>. The deferred \<open>upstreamConn.Close()\<close> runs when the
  function returns after a successful dial.
\<close>

definition passthroughRequest :: "conn \<Rightarrow> Tunnel \<Rightarrow> error option \<Rightarrow> event list" where
  "passthroughRequest c tunnel dialErr =
     (let upstreamAddr = ''localhost:'' @ fmt_d (TunnelPort tunnel)
      in case dialErr of
           Some err \<Rightarrow> [Dial upstreamAddr, LogPrint err]
         | None \<Rightarrow>
             [Dial upstreamAddr, Splice c (Dialed upstreamAddr), Close (Dialed upstreamAddr)])"

text \<open>
  \<open>handleConnection\<close> (boringproxy.go, lines 458-475). \<open>peek\<close> is the result of
  \<open>peekClientHello(clientConn)\<close>. \<open>log.Println\<close> separates its operands by a space.
\<close>

definition handleConnection ::
  "(string \<rightharpoonup> Tunnel) \<Rightarrow> conn \<Rightarrow> error + ClientHelloInfo \<Rightarrow> error option \<Rightarrow> event list" where
  "handleConnection db clientConn peek dialErr =
     (case peek of
        Inl err \<Rightarrow> [PeekClientHello clientConn, LogPrint (''peekClientHello error '' @ err)]
      | Inr clientHello \<Rightarrow>
          (let passConn = ProxyConn clientConn
           in PeekClientHello clientConn #
              (case db (ServerName clientHello) of
                 Some tunnel \<Rightarrow>
                   if TlsTermination tunnel = ''client'' \<or> TlsTermination tunnel = ''passthrough''
                   then passthroughRequest passConn tunnel dialErr
                   else [PassConn passConn]
               | None \<Rightarrow> [PassConn passConn])))"

fun isSplice :: "event \<Rightarrow> bool" where
  "isSplice (Splice a b) = True"
| "isSplice e = False"

fun isPassConn :: "event \<Rightarrow> bool" where
  "isPassConn (PassConn c) = True"
| "isPassConn e = False"

fun isClose :: "event \<Rightarrow> bool" where
  "isClose (Close c) = True"
| "isClose e = False"

text \<open>The tunnel of scenario S1, and a registry that holds it alone.\<close>

definition tunnel_a :: Tunnel where
  "tunnel_a =
     \<lparr>TunnelPort = 9001, ClientAddress = ''a.example'', ClientPort = 443,
      TlsTermination = ''passthrough'', AuthUsername = '''', AuthPassword = ''''\<rparr>"

definition registry_a :: "string \<rightharpoonup> Tunnel" where
  "registry_a = [''a.example'' \<mapsto> tunnel_a]"

section \<open>The HTTP reverse proxy\<close>

text \<open>
  What \<open>proxyRequest\<close> gets from the HTTP library: the error of \<open>http.NewRequest\<close>
  and the result of \<open>httpClient.Do\<close>.
\<close>

record ProxyEnv =
  newRequestErr :: "error option"
  doResult :: "error + Response"

text \<open>
  \<open>proxyRequest\<close> (unnamed/part_002). \<open>gate\<close> is the Basic-Auth block (lines 14-29):
  \<open>Some es\<close> when it returns early with events \<open>es\<close>. After it the body is read, the
  upstream request is built and sent, and the answer is copied to the client; the deferred
  \<open>upstreamRes.Body.Close()\<close> comes last. \<open>fmt.Sprintf("%s", err)\<close> is the error's text.
  \<open>http.NewRequest\<close> gives the request the method, URL and body it is passed; the code then
  sets its \<open>Header\<close> and \<open>Host\<close>.
\<close>

definition proxyRequest :: "Request \<Rightarrow> Tunnel \<Rightarrow> ProxyEnv \<Rightarrow> int \<Rightarrow> event list" where
  "proxyRequest r tunnel env port =
     (let gate =
        (if AuthUsername tunnel \<noteq> '''' \<or> AuthPassword tunnel \<noteq> '''' then
           (case BasicAuth r of
              None \<Rightarrow> Some [SetHeader ''WWW-Authenticate'' [''Basic''], WriteHeader 401]
            | Some (username, password) \<Rightarrow>
                if username \<noteq> AuthUsername tunnel \<or> password \<noteq> AuthPassword tunnel
                then Some [SetHeader ''WWW-Authenticate'' [''Basic''], WriteHeader 401, Sleep 2]
                else None)
         else None)
      in case gate of
           Some es \<Rightarrow> es
         | None \<Rightarrow>
             (let downstreamReqHeaders = Header r;
                  upstreamAddr = ''localhost:'' @ fmt_d port;
                  upstreamUrl = ''http://'' @ upstreamAddr @ URLRequestURI r
              in case Body r of
                   Inl err \<Rightarrow> [ReadAllBody, WriteHeader 500, WriteString err]
                 | Inr body \<Rightarrow>
                     (case newRequestErr env of
                        Some err \<Rightarrow>
                          [ReadAllBody, NewRequest (Method r) upstreamUrl,
                           WriteHeader 500, WriteString err]
                      | None \<Rightarrow>
                          (let upstreamReq =
                             \<lparr>uMethod = Method r, uURL = upstreamUrl, uBody = body,
                              uHeader = downstreamReqHeaders(''X-Forwarded-Host'' \<mapsto> [Host r]),
                              uHost = ClientAddress tunnel @ '':'' @ fmt_d (ClientPort tunnel)\<rparr>
                           in case doResult env of
                                Inl err \<Rightarrow>
                                  [ReadAllBody, NewRequest (Method r) upstreamUrl,
                                   ClientDo upstreamReq, WriteHeader 502, WriteString err]
                              | Inr upstreamRes \<Rightarrow>
                                  [ReadAllBody, NewRequest (Method r) upstreamUrl,
                                   ClientDo upstreamReq]
                                  @ map (\<lambda>(k, v). SetHeader k v) (RespHeader upstreamRes)
                                  @ [WriteHeader (StatusCode upstreamRes),
                                     IoCopy (RespBody upstreamRes), CloseBody]))))"

text \<open>
  A request passes the Basic-Auth block when the tunnel has no credentials or the request
  presents exactly the tunnel's.
\<close>

definition passesAuth :: "Request \<Rightarrow> Tunnel \<Rightarrow> bool" where
  "passesAuth r tunnel =
     ((AuthUsername tunnel = '''' \<and> AuthPassword tunnel = '''')
      \<or> BasicAuth r = Some (AuthUsername tunnel, AuthPassword tunnel))"

fun isClientDo :: "event \<Rightarrow> bool" where
  "isClientDo (ClientDo q) = True"
| "isClientDo e = False"

fun isNewRequest :: "event \<Rightarrow> bool" where
  "isNewRequest (NewRequest m u) = True"
| "isNewRequest e = False"

text \<open>The tunnels of scenarios S2 and S3, a backend that answers 200, and requests.\<close>

definition tunnel_b :: Tunnel where
  "tunnel_b =
     \<lparr>TunnelPort = 9002, ClientAddress = ''b.example'', ClientPort = 443,
      TlsTermination = ''server'', AuthUsername = '''', AuthPassword = ''''\<rparr>"

definition tunnel_b_auth :: Tunnel where
  "tunnel_b_auth = tunnel_b\<lparr>AuthUsername := ''u'', AuthPassword := ''p''\<rparr>"

definition ok_response :: Response where
  "ok_response = \<lparr>StatusCode = 200, RespHeader = [], RespBody = ''ok''\<rparr>"

definition env_ok :: ProxyEnv where
  "env_ok = \<lparr>newRequestErr = None, doResult = Inr ok_response\<rparr>"

definition env_refused :: ProxyEnv where
  "env_refused = \<lparr>newRequestErr = None, doResult = Inl ''connection refused''\<rparr>"

definition request_b :: Request where
  "request_b =
     \<lparr>Method = ''GET'', Host = ''b.example'', RequestURI = ''/x'', URLRequestURI = ''/x'',
      Header = [''Accept'' \<mapsto> [''*/*'']], BasicAuth = None, Body = Inr ''''\<rparr>"

definition upstream_b :: UpstreamRequest where
  "upstream_b =
     \<lparr>uMethod = ''GET'', uURL = ''http://localhost:9002/x'', uBody = '''',
      uHeader = [''Accept'' \<mapsto> [''*/*''], ''X-Forwarded-Host'' \<mapsto> [''b.example'']],
      uHost = ''b.example:443''\<rparr>"

section \<open>The handler of \<open>/namedrop/auth-success\<close>\<close>

text \<open>
  How a run of a handler or of the start-up ends: it returns, it panics (the HTTP server
  recovers the panic and drops the connection without a response), or the process exits
  (\<open>log.Fatal\<close>).
\<close>

datatype outcome = Returned | Panicked | Exited

record DNSRequest =
  IsAdminDomain :: bool

record Scope =
  ScopeDomain :: string
  ScopeHost :: string

record NamedropRecord =
  rDomain :: string
  rHost :: string
  rType :: string
  rValue :: string
  rTTL :: int

text \<open>
  What the branch gets from the store, the OAuth library, the network and the JSON library:
  \<^item> \<open>getDNSRequest\<close>: \<open>db.GetDNSRequest(requestId)\<close>;
  \<^item> \<open>exchange\<close>: \<open>oauthConf.Exchange(ctx, code)\<close>, \<open>Inr\<close> the token's \<open>AccessToken\<close>; with an
    error the library returns a nil token;
  \<^item> \<open>tokenDataGet\<close>: \<open>http.Get\<close> of the token data, \<open>Inr\<close> what \<open>io.ReadAll\<close> then read of
    the body (the error of that read is dropped by the code);
  \<^item> \<open>unmarshalScopes\<close>: \<open>json.Unmarshal\<close> into \<open>namedrop.TokenData\<close>, \<open>Inr\<close> its \<open>Scopes\<close>;
  \<^item> \<open>marshalRecord\<close>: \<open>json.Marshal(createRecordReq)\<close>;
  \<^item> \<open>putNewRequestErr\<close>, \<open>putDo\<close>, \<open>putReadAll\<close>: \<open>http.NewRequest\<close>, \<open>httpClient.Do\<close>
    (\<open>Inr\<close> the status code of the response) and \<open>io.ReadAll(resp.Body)\<close>;
  \<^item> \<open>manageSyncErr\<close>: \<open>certConfig.ManageSync\<close>; \<open>getAdminDomain\<close>: \<open>db.GetAdminDomain()\<close>.
\<close>

record AuthSuccessEnv =
  getDNSRequest :: "error + DNSRequest"
  exchange :: "error + string"
  tokenDataGet :: "error + string"
  unmarshalScopes :: "string \<Rightarrow> error + Scope list"
  marshalRecord :: "NamedropRecord \<Rightarrow> error + string"
  putNewRequestErr :: "error option"
  putDo :: "error + int"
  putReadAll :: "error + string"
  manageSyncErr :: "error option"
  getAdminDomain :: string

text \<open>
  The branch \<open>r.URL.Path == "/namedrop/auth-success"\<close> of the root handler
  (boringproxy.go, lines 267-379), for the form values \<open>state\<close> (\<open>requestId\<close>) and \<open>code\<close>
  and the configured public IP. After a failed exchange the code prints the error and goes
  on to read \<open>tok.AccessToken\<close> of the nil token, which panics. The deferred
  \<open>Body.Close()\<close> calls run when the handler returns, not when \<open>log.Fatal\<close> exits.
\<close>

definition authSuccess :: "AuthSuccessEnv \<Rightarrow> string \<Rightarrow> string \<Rightarrow> string \<Rightarrow> event list \<times> outcome" where
  "authSuccess env requestId code publicIp =
    (case getDNSRequest env of
       Inl err \<Rightarrow> ([WriteHeader 500, WriteString err], Returned)
     | Inr dnsRequest \<Rightarrow>
    (case exchange env of
       Inl err \<Rightarrow> ([DeleteDNSRequest requestId, OAuthExchange code, FmtPrintln err], Panicked)
     | Inr accessToken \<Rightarrow>
    (let es1 = [DeleteDNSRequest requestId, OAuthExchange code,
                HttpGet (''https://takingnames.io/namedrop/token-data?access_token='' @ accessToken)]
     in case tokenDataGet env of
       Inl err \<Rightarrow> (es1 @ [WriteHeader 500, WriteString err], Returned)
     | Inr bodyJson \<Rightarrow>
    (case unmarshalScopes env bodyJson of
       Inl err \<Rightarrow> (es1 @ [WriteHeader 500, WriteString err, CloseBody], Returned)
     | Inr scopes \<Rightarrow>
    (case scopes of
       [] \<Rightarrow> (es1 @ [WriteHeader 500, WriteString ''No scopes returned'', CloseBody], Returned)
     | scope # _ \<Rightarrow>
    (let domain = ScopeDomain scope;
         host = ScopeHost scope;
         createRecordReq =
           \<lparr>rDomain = domain, rHost = host, rType = ''A'', rValue = publicIp, rTTL = 300\<rparr>
     in case marshalRecord env createRecordReq of
       Inl err \<Rightarrow> (es1 @ [WriteHeader 500, WriteString err, CloseBody], Returned)
     | Inr createRecordReqJson \<Rightarrow>
    (let url = ''https://takingnames.io/namedrop/records?access_token='' @ accessToken;
         es2 = es1 @ [NewRequest ''PUT'' url]
     in case putNewRequestErr env of
       Some err \<Rightarrow> (es2 @ [WriteHeader 500, WriteString err, CloseBody], Returned)
     | None \<Rightarrow>
    (let req = \<lparr>uMethod = ''PUT'', uURL = url, uBody = createRecordReqJson,
                uHeader = Map.empty, uHost = ''takingnames.io''\<rparr>;
         es3 = es2 @ [ClientDo req]
     in case putDo env of
       Inl err \<Rightarrow> (es3 @ [WriteHeader 500, WriteString err, CloseBody], Returned)
     | Inr statusCode \<Rightarrow>
    (case putReadAll env of
       Inl err \<Rightarrow> (es3 @ [WriteHeader 500, WriteString err, CloseBody, CloseBody], Returned)
     | Inr body \<Rightarrow>
    (let es4 = es3 @ [FmtPrintln body]
     in if statusCode \<noteq> 200 then
          (es4 @ [WriteHeader 500, WriteString ''Invalid status code'', CloseBody, CloseBody],
           Returned)
        else
          (let fqdn = host @ ''.'' @ domain
           in if IsAdminDomain dnsRequest then
                (case manageSyncErr env of
                   Some err \<Rightarrow>
                     (es4 @ [SetAdminDomain fqdn, ManageSync [fqdn], LogPrint err], Exited)
                 | None \<Rightarrow>
                     (es4 @ [SetAdminDomain fqdn, ManageSync [fqdn],
                             HttpRedirect (''https://'' @ fqdn) 303, CloseBody, CloseBody],
                      Returned))
              else
                (es4 @ [HttpRedirect
                          (''https://'' @ getAdminDomain env @ ''/edit-tunnel?domain='' @ fqdn) 303,
                        CloseBody, CloseBody],
                 Returned))))))))))))"

text \<open>The client gets an HTTP 500 response: the handler wrote status 500 and returned.\<close>

definition responds500 :: "event list \<times> outcome \<Rightarrow> bool" where
  "responds500 run = (status_of (fst run) = Some 500 \<and> snd run = Returned)"

text \<open>
  An environment in which every step of scenario S6 succeeds, for a request about the
  admin domain.
\<close>

definition env_s6 :: AuthSuccessEnv where
  "env_s6 =
     \<lparr>getDNSRequest = Inr \<lparr>IsAdminDomain = True\<rparr>,
      exchange = Inr ''tok'',
      tokenDataGet = Inr ''{}'',
      unmarshalScopes = (\<lambda>b. Inr [\<lparr>ScopeDomain = ''example'', ScopeHost = ''admin''\<rparr>]),
      marshalRecord = (\<lambda>rec. Inr ''{}''),
      putNewRequestErr = None,
      putDo = Inr 200,
      putReadAll = Inr '''',
      manageSyncErr = None,
      getAdminDomain = ''old.example''\<rparr>"

section \<open>Start-up: the first admin user\<close>

text \<open>
  Modelled from the spec: the store (\<open>Database\<close>) is not among the sources. The spec's
  persisted state has users (name to flags, the flag being \<open>is_admin\<close>) and tokens (opaque
  string to owner name). \<open>AddUser\<close> records a user under its name; \<open>AddToken\<close> mints a
  random token (\<open>minted\<close>: the generated string, or the error of generating it) and
  records it with its owner.
\<close>

record User =
  IsAdmin :: bool

record TokenData =
  Owner :: string

record Database =
  Users :: "string \<rightharpoonup> User"
  Tokens :: "string \<rightharpoonup> TokenData"

definition AddUser :: "Database \<Rightarrow> string \<Rightarrow> bool \<Rightarrow> Database" where
  "AddUser db username isAdmin = db\<lparr>Users := (Users db)(username \<mapsto> \<lparr>IsAdmin = isAdmin\<rparr>)\<rparr>"

definition AddToken :: "Database \<Rightarrow> string \<Rightarrow> error + string \<Rightarrow> error + Database" where
  "AddToken db owner minted =
     (case minted of
        Inl err \<Rightarrow> Inl err
      | Inr token \<Rightarrow> Inr (db\<lparr>Tokens := (Tokens db)(token \<mapsto> \<lparr>Owner = owner\<rparr>)\<rparr>))"

text \<open>
  The block "Add admin user if it doesn't already exist" of \<open>Listen\<close> (boringproxy.go,
  lines 173-182): the store after it, or \<open>None\<close> when \<open>log.Fatal\<close> ends the process.
  \<open>len(users) == 0\<close> is: the map of users is empty.
\<close>

definition addAdminUser :: "Database \<Rightarrow> error + string \<Rightarrow> Database option" where
  "addAdminUser db minted =
     (let users = Users db
      in if users = Map.empty then
           (case AddToken (AddUser db ''admin'' True) ''admin'' minted of
              Inl err \<Rightarrow> None
            | Inr db' \<Rightarrow> Some db')
         else Some db)"

text \<open>The store holds a token owned by \<open>admin\<close>.\<close>

definition hasAdminToken :: "Database \<Rightarrow> bool" where
  "hasAdminToken db = (\<exists>token. Tokens db token = Some \<lparr>Owner = ''admin''\<rparr>)"

text \<open>A store with one user who is not \<open>admin\<close> and no token.\<close>

definition db_bob :: Database where
  "db_bob = \<lparr>Users = [''bob'' \<mapsto> \<lparr>IsAdmin = False\<rparr>], Tokens = Map.empty\<rparr>"

text \<open>A store whose only user is \<open>admin\<close>, with no token.\<close>

definition db_admin :: Database where
  "db_admin = \<lparr>Users = [''admin'' \<mapsto> \<lparr>IsAdmin = True\<rparr>], Tokens = Map.empty\<rparr>"

definition db_empty :: Database where
  "db_empty = \<lparr>Users = Map.empty, Tokens = Map.empty\<rparr>"

section \<open>Theorems\<close>

lemma fmt_d_443: "fmt_d 443 = ''443''"
  by (simp add: fmt_d_def nat_dec.simps)

lemma fmt_d_9001: "fmt_d 9001 = ''9001''"
  by (simp add: fmt_d_def nat_dec.simps)

text \<open>
  The decimal port is ASCII, and \<open>hexEscapeNonASCII\<close> leaves ASCII text as it is.
\<close>

lemma nat_dec_ascii: "isASCII (nat_dec n)"
proof (induction n rule: nat_dec.induct)
  case (1 n)
  have digit: "of_char (''0123456789'' ! k) < (128::nat)" if "k < 10" for k
  proof -
    from that have "k \<in> {0, 1, 2, 3, 4, 5, 6, 7, 8, 9}"
      by auto
    then show ?thesis
      by auto
  qed
  show ?case
  proof (cases "n < 10")
    case True
    then show ?thesis
      by (subst nat_dec.simps) (simp add: isASCII_def digit)
  next
    case False
    with 1 have "isASCII (nat_dec (n div 10))"
      by simp
    moreover have "n mod 10 < 10"
      by simp
    ultimately show ?thesis
      using False by (subst nat_dec.simps) (simp add: isASCII_def digit)
  qed
qed

lemma fmt_d_ascii: "isASCII (fmt_d i)"
  using nat_dec_ascii [of "nat (- i)"] nat_dec_ascii [of "nat i"]
  by (simp add: fmt_d_def isASCII_def)

lemma hexEscapeNonASCII_append:
  "hexEscapeNonASCII (s @ t) = hexEscapeNonASCII s @ hexEscapeNonASCII t"
  by (simp add: hexEscapeNonASCII_def)

lemma hexEscapeNonASCII_ascii: "isASCII s \<Longrightarrow> hexEscapeNonASCII s = s"
  by (induction s) (simp_all add: hexEscapeNonASCII_def isASCII_def)

lemma hexEscapeNonASCII_Cons:
  "hexEscapeNonASCII (c # s) =
     (if (128::nat) \<le> of_char c then CHR 0x25 # nat_hex (of_char c) else [c])
     @ hexEscapeNonASCII s"
  by (simp add: hexEscapeNonASCII_def)

lemma isASCII_append: "isASCII (s @ t) = (isASCII s \<and> isASCII t)"
  by (simp add: isASCII_def)

text \<open>
  C7, as it holds. With \<open>allow_http\<close> false, every request on the HTTP port is answered
  by \<open>http.Redirect\<close> with status 301 and the URL
  \<open>https://<host>:<https_port><request-uri>\<close>, where \<open><host>\<close> is the request's \<open>Host\<close>
  and \<open><request-uri>\<close> its request URI, path and query as received. The \<open>Location\<close>
  header the client receives is that URL with every byte from 0x80 on in the host and the
  request URI percent-escaped; where both are ASCII it is the URL itself, so a GET to
  \<open>http://h/p?q=1\<close> gets \<open>Location: https://h:<https_port>/p?q=1\<close>.
\<close>

theorem redirect_to_https:
  "\<not> allowHttp \<Longrightarrow>
   serveHttpPort allowHttp httpsPort defaultMux r =
     [HttpRedirect (''https://'' @ Host r @ '':'' @ fmt_d httpsPort @ RequestURI r) 301]
   \<and> status_of (serveHttpPort allowHttp httpsPort defaultMux r) = Some 301
   \<and> location_of (serveHttpPort allowHttp httpsPort defaultMux r) =
       Some (''https://'' @ hexEscapeNonASCII (Host r) @ '':'' @ fmt_d httpsPort
             @ hexEscapeNonASCII (RequestURI r))
   \<and> (isASCII (Host r) \<and> isASCII (RequestURI r) \<longrightarrow>
        location_of (serveHttpPort allowHttp httpsPort defaultMux r) =
          Some (''https://'' @ Host r @ '':'' @ fmt_d httpsPort @ RequestURI r))"
proof -
  assume off: "\<not> allowHttp"
  have run: "serveHttpPort allowHttp httpsPort defaultMux r =
      [HttpRedirect (''https://'' @ Host r @ '':'' @ fmt_d httpsPort @ RequestURI r) 301]"
    using off by (simp add: serveHttpPort_def redirectTLS_def Let_def)
  have port: "hexEscapeNonASCII (fmt_d httpsPort) = fmt_d httpsPort"
    by (rule hexEscapeNonASCII_ascii) (rule fmt_d_ascii)
  have loc: "location_of (serveHttpPort allowHttp httpsPort defaultMux r) =
      Some (''https://'' @ hexEscapeNonASCII (Host r) @ '':'' @ fmt_d httpsPort
            @ hexEscapeNonASCII (RequestURI r))"
    unfolding run
    using port by (simp add: hexEscapeNonASCII_Cons hexEscapeNonASCII_append)
  from run loc show ?thesis
    by (simp add: hexEscapeNonASCII_ascii)
qed

theorem redirect_to_https_witness:
  "serveHttpPort False 443 (\<lambda>r. []) (get_request ''h'' ''/p?q=1'') =
     [HttpRedirect ''https://h:443/p?q=1'' 301]
   \<and> status_of (serveHttpPort False 443 (\<lambda>r. []) (get_request ''h'' ''/p?q=1'')) = Some 301
   \<and> location_of (serveHttpPort False 443 (\<lambda>r. []) (get_request ''h'' ''/p?q=1'')) =
       Some ''https://h:443/p?q=1''"
  using redirect_to_https [of False 443 "\<lambda>r. []" "get_request ''h'' ''/p?q=1''"]
  by (simp add: serveHttpPort_def redirectTLS_def Let_def get_request_def fmt_d_443
      isASCII_def hexEscapeNonASCII_def)

text \<open>
  C7 as stated fails for a request URI with a byte outside ASCII: for \<open>GET /\<close> followed
  by the bytes 0xC3 0xA9 the \<open>Location\<close> header is \<open>https://h:443/%c3%a9\<close>, not the host,
  port and request URI as received.
\<close>

theorem non_ascii_location_counterexample:
  "location_of (serveHttpPort False 443 (\<lambda>r. [])
      (get_request ''h'' [CHR ''/'', CHR 0xC3, CHR 0xA9])) = Some ''https://h:443/%c3%a9''
   \<and> location_of (serveHttpPort False 443 (\<lambda>r. [])
      (get_request ''h'' [CHR ''/'', CHR 0xC3, CHR 0xA9]))
       \<noteq> Some (''https://h:443'' @ [CHR ''/'', CHR 0xC3, CHR 0xA9])"
  by (simp add: serveHttpPort_def redirectTLS_def Let_def get_request_def fmt_d_443
      hexEscapeNonASCII_def nat_hex.simps)

lemma redirectTLS_443_is_port_443:
  "redirectTLS_443 r = LogPrint (''redir '' @ ''https://'' @ Host r @ '':443'' @ RequestURI r) # redirectTLS 443 r"
  by (simp add: redirectTLS_443_def redirectTLS_def fmt_d_443 Let_def)

text \<open>
  C6, as it holds. With \<open>allow_http\<close> false no ACME challenge handler stands before the
  redirect: \<open>redirectTLS\<close> is the only handler of the HTTP port, so a request for an ACME
  HTTP-01 challenge is answered as every other request is, by the redirect with status 301.
\<close>

theorem acme_challenge_redirected:
  "\<not> allowHttp \<Longrightarrow> isAcmeChallenge r \<Longrightarrow>
   serveHttpPort allowHttp httpsPort defaultMux r = redirectTLS httpsPort r
   \<and> status_of (serveHttpPort allowHttp httpsPort defaultMux r) = Some 301"
  by (simp add: serveHttpPort_def redirectTLS_def Let_def)

theorem acme_challenge_redirected_witness:
  "isAcmeChallenge (get_request ''h'' ''/.well-known/acme-challenge/tok'')
   \<and> serveHttpPort False 443 (\<lambda>r. []) (get_request ''h'' ''/.well-known/acme-challenge/tok'') =
       redirectTLS 443 (get_request ''h'' ''/.well-known/acme-challenge/tok'')
   \<and> status_of (serveHttpPort False 443 (\<lambda>r. [])
        (get_request ''h'' ''/.well-known/acme-challenge/tok'')) = Some 301"
proof -
  have acme: "isAcmeChallenge (get_request ''h'' ''/.well-known/acme-challenge/tok'')"
    by (simp add: isAcmeChallenge_def get_request_def)
  have off: "\<not> False"
    by simp
  from acme_challenge_redirected [OF off acme, of 443 "\<lambda>r. []"] acme show ?thesis
    by (simp add: redirectTLS_def Let_def)
qed

text \<open>
  C6 as stated fails: a request for \<open>/.well-known/acme-challenge/tok\<close> on the HTTP port
  gets the 301 redirect to the HTTPS port, not a challenge response.
\<close>

theorem acme_challenge_counterexample:
  "isAcmeChallenge (get_request ''h'' ''/.well-known/acme-challenge/tok'')
   \<and> serveHttpPort False 443 (\<lambda>r. []) (get_request ''h'' ''/.well-known/acme-challenge/tok'') =
       [HttpRedirect ''https://h:443/.well-known/acme-challenge/tok'' 301]"
  by (simp add: isAcmeChallenge_def get_request_def serveHttpPort_def redirectTLS_def fmt_d_443)

subsection \<open>The edge dispatcher\<close>

text \<open>
  C1, as it holds. After the ClientHello is peeked: when the registry has a tunnel for the
  SNI name whose \<open>TlsTermination\<close> is \<open>client\<close> or \<open>passthrough\<close>, the dispatcher
  dials \<open>localhost:<tunnel_port>\<close>; if the dial succeeds the replayed connection is
  spliced with the dialed one, which is then closed; if the dial fails the error is logged;
  in neither case is the connection passed to the passthrough listener. In every other
  case (no tunnel for the name, a tunnel with another termination, in particular an empty
  SNI name with no tunnel registered under it) the replayed connection is passed to the
  passthrough listener and nothing else happens.
\<close>

theorem dispatch_by_sni:
  "(db (ServerName hello) = Some tunnel \<and>
      (TlsTermination tunnel = ''client'' \<or> TlsTermination tunnel = ''passthrough'') \<longrightarrow>
        (dialErr = None \<longrightarrow>
           handleConnection db c (Inr hello) dialErr =
             [PeekClientHello c,
              Dial (''localhost:'' @ fmt_d (TunnelPort tunnel)),
              Splice (ProxyConn c) (Dialed (''localhost:'' @ fmt_d (TunnelPort tunnel))),
              Close (Dialed (''localhost:'' @ fmt_d (TunnelPort tunnel)))])
        \<and> (\<forall>err. dialErr = Some err \<longrightarrow>
           handleConnection db c (Inr hello) dialErr =
             [PeekClientHello c, Dial (''localhost:'' @ fmt_d (TunnelPort tunnel)), LogPrint err])
        \<and> \<not> list_ex isPassConn (handleConnection db c (Inr hello) dialErr))
   \<and> (\<not> (\<exists>t. db (ServerName hello) = Some t \<and>
              (TlsTermination t = ''client'' \<or> TlsTermination t = ''passthrough'')) \<longrightarrow>
        handleConnection db c (Inr hello) dialErr = [PeekClientHello c, PassConn (ProxyConn c)])
   \<and> (ServerName hello = '''' \<and> db '''' = None \<longrightarrow>
        handleConnection db c (Inr hello) dialErr = [PeekClientHello c, PassConn (ProxyConn c)])"
  by (auto simp: handleConnection_def passthroughRequest_def Let_def split: option.splits)

theorem dispatch_by_sni_witness:
  "handleConnection registry_a (Accepted 0) (Inr \<lparr>ServerName = ''a.example''\<rparr>) None =
     [PeekClientHello (Accepted 0), Dial ''localhost:9001'',
      Splice (ProxyConn (Accepted 0)) (Dialed ''localhost:9001''), Close (Dialed ''localhost:9001'')]
   \<and> handleConnection registry_a (Accepted 0) (Inr \<lparr>ServerName = ''z.example''\<rparr>) None =
     [PeekClientHello (Accepted 0), PassConn (ProxyConn (Accepted 0))]
   \<and> handleConnection registry_a (Accepted 0) (Inr \<lparr>ServerName = ''''\<rparr>) None =
     [PeekClientHello (Accepted 0), PassConn (ProxyConn (Accepted 0))]"
  using dispatch_by_sni [of registry_a "\<lparr>ServerName = ''a.example''\<rparr>" tunnel_a None "Accepted 0"]
    dispatch_by_sni [of registry_a "\<lparr>ServerName = ''z.example''\<rparr>" tunnel_a None "Accepted 0"]
    dispatch_by_sni [of registry_a "\<lparr>ServerName = ''''\<rparr>" tunnel_a None "Accepted 0"]
  by (simp add: registry_a_def tunnel_a_def fmt_d_9001)

text \<open>
  C1 as stated fails where the dial to the backend fails: the tunnel of scenario S1
  matches, yet the connection is not spliced to anything. (The address the code dials is
  \<open>localhost:9001\<close>, by name.)
\<close>

theorem dial_failure_counterexample:
  "registry_a ''a.example'' = Some tunnel_a
   \<and> TlsTermination tunnel_a = ''passthrough''
   \<and> handleConnection registry_a (Accepted 0) (Inr \<lparr>ServerName = ''a.example''\<rparr>)
        (Some ''connection refused'') =
       [PeekClientHello (Accepted 0), Dial ''localhost:9001'', LogPrint ''connection refused'']
   \<and> \<not> list_ex isSplice
        (handleConnection registry_a (Accepted 0) (Inr \<lparr>ServerName = ''a.example''\<rparr>)
           (Some ''connection refused''))"
  by (simp add: handleConnection_def passthroughRequest_def registry_a_def tunnel_a_def fmt_d_9001)

text \<open>
  C2 says that when peeking the ClientHello fails the dispatcher logs the error and closes
  the client connection. The code does the first only: for every error of
  \<open>peekClientHello\<close> the run of \<open>handleConnection\<close> is the peek and the log line, with no
  \<open>Close\<close> of any connection, so the accepted socket stays open on this exit path.
\<close>

theorem peek_failure_not_closed:
  "handleConnection db c (Inl err) dialErr =
     [PeekClientHello c, LogPrint (''peekClientHello error '' @ err)]
   \<and> \<not> list_ex isClose (handleConnection db c (Inl err) dialErr)"
  by (simp add: handleConnection_def)

subsection \<open>The HTTP reverse proxy\<close>

text \<open>
  \<open>proxyRequest\<close> in two halves: what a request that passes the Basic-Auth block gets,
  and what one that does not pass gets.
\<close>

lemma fmt_d_9002: "fmt_d 9002 = ''9002''"
  by (simp add: fmt_d_def nat_dec.simps)

lemma proxyRequest_forward:
  "passesAuth r tunnel \<Longrightarrow>
   proxyRequest r tunnel env port =
     (case Body r of
        Inl err \<Rightarrow> [ReadAllBody, WriteHeader 500, WriteString err]
      | Inr body \<Rightarrow>
          (case newRequestErr env of
             Some err \<Rightarrow>
               [ReadAllBody, NewRequest (Method r) (''http://localhost:'' @ fmt_d port @ URLRequestURI r),
                WriteHeader 500, WriteString err]
           | None \<Rightarrow>
               ReadAllBody # NewRequest (Method r) (''http://localhost:'' @ fmt_d port @ URLRequestURI r) #
               ClientDo \<lparr>uMethod = Method r,
                         uURL = ''http://localhost:'' @ fmt_d port @ URLRequestURI r,
                         uBody = body,
                         uHeader = (Header r)(''X-Forwarded-Host'' \<mapsto> [Host r]),
                         uHost = ClientAddress tunnel @ '':'' @ fmt_d (ClientPort tunnel)\<rparr> #
               (case doResult env of
                  Inl err \<Rightarrow> [WriteHeader 502, WriteString err]
                | Inr upstreamRes \<Rightarrow>
                    map (\<lambda>(k, v). SetHeader k v) (RespHeader upstreamRes)
                    @ [WriteHeader (StatusCode upstreamRes), IoCopy (RespBody upstreamRes), CloseBody])))"
  unfolding passesAuth_def proxyRequest_def Let_def
  by (auto split: sum.splits option.splits)

lemma proxyRequest_rejected:
  "\<not> passesAuth r tunnel \<Longrightarrow>
   proxyRequest r tunnel env port =
     (if BasicAuth r = None then [SetHeader ''WWW-Authenticate'' [''Basic''], WriteHeader 401]
      else [SetHeader ''WWW-Authenticate'' [''Basic''], WriteHeader 401, Sleep 2])"
  unfolding passesAuth_def proxyRequest_def Let_def
  by (auto split: sum.splits option.splits)

lemma setHeader_not_ClientDo: "ClientDo q \<notin> set (map (\<lambda>(k, v). SetHeader k v) hs)"
  by (induction hs) auto

lemma setHeader_no_ClientDo: "\<not> list_ex isClientDo (map (\<lambda>(k, v). SetHeader k v) hs)"
  by (induction hs) auto

text \<open>
  C3. Every request \<open>proxyRequest\<close> hands to the HTTP client has \<open>Host\<close> equal to
  \<open><client_address>:<client_port>\<close> of the tunnel and \<open>X-Forwarded-Host\<close> equal to the
  \<open>Host\<close> of the client's request, as received; every other header is the client's.
\<close>

theorem upstream_host_headers:
  "ClientDo q \<in> set (proxyRequest r tunnel env port) \<Longrightarrow>
     uHost q = ClientAddress tunnel @ '':'' @ fmt_d (ClientPort tunnel)
   \<and> uHeader q ''X-Forwarded-Host'' = Some [Host r]
   \<and> (\<forall>k. k \<noteq> ''X-Forwarded-Host'' \<longrightarrow> uHeader q k = Header r k)"
proof (cases "passesAuth r tunnel")
  case False
  assume "ClientDo q \<in> set (proxyRequest r tunnel env port)"
  with False show ?thesis
    by (simp add: proxyRequest_rejected split: if_splits)
next
  case True
  assume "ClientDo q \<in> set (proxyRequest r tunnel env port)"
  with True show ?thesis
    by (auto simp: proxyRequest_forward setHeader_not_ClientDo split: sum.splits option.splits)
qed

theorem upstream_host_headers_witness:
  "ClientDo upstream_b \<in> set (proxyRequest request_b tunnel_b env_ok 9002)
   \<and> uHost upstream_b = ''b.example:443''
   \<and> uHeader upstream_b ''X-Forwarded-Host'' = Some [''b.example'']
   \<and> uHeader upstream_b ''Accept'' = Some [''*/*'']"
proof -
  have sent: "ClientDo upstream_b \<in> set (proxyRequest request_b tunnel_b env_ok 9002)"
    by (simp add: proxyRequest_def request_b_def tunnel_b_def env_ok_def upstream_b_def
        ok_response_def fmt_d_443 fmt_d_9002 Let_def)
  from upstream_host_headers [OF sent] sent show ?thesis
    by (simp add: request_b_def tunnel_b_def fmt_d_443)
qed

text \<open>
  C4. For a tunnel with a user name or a password: a request without Basic-Auth
  credentials gets \<open>WWW-Authenticate: Basic\<close> and 401; one with other credentials than the
  tunnel's gets the same, and the handler then sleeps two seconds and returns; one with
  the tunnel's credentials is treated as a request to the same tunnel without credentials
  is: it is forwarded, that is, once the body is read and the upstream request is built,
  the request is sent to the backend.
\<close>

theorem basic_auth_gate:
  "AuthUsername tunnel \<noteq> '''' \<or> AuthPassword tunnel \<noteq> '''' \<Longrightarrow>
   (BasicAuth r = None \<longrightarrow>
      proxyRequest r tunnel env port =
        [SetHeader ''WWW-Authenticate'' [''Basic''], WriteHeader 401])
   \<and> (\<forall>username password.
        BasicAuth r = Some (username, password)
        \<and> (username \<noteq> AuthUsername tunnel \<or> password \<noteq> AuthPassword tunnel) \<longrightarrow>
        proxyRequest r tunnel env port =
          [SetHeader ''WWW-Authenticate'' [''Basic''], WriteHeader 401, Sleep 2])
   \<and> (BasicAuth r = Some (AuthUsername tunnel, AuthPassword tunnel) \<longrightarrow>
        proxyRequest r tunnel env port =
          proxyRequest r (tunnel\<lparr>AuthUsername := '''', AuthPassword := ''''\<rparr>) env port
        \<and> (\<forall>body. Body r = Inr body \<and> newRequestErr env = None \<longrightarrow>
             ClientDo \<lparr>uMethod = Method r,
                       uURL = ''http://localhost:'' @ fmt_d port @ URLRequestURI r,
                       uBody = body,
                       uHeader = (Header r)(''X-Forwarded-Host'' \<mapsto> [Host r]),
                       uHost = ClientAddress tunnel @ '':'' @ fmt_d (ClientPort tunnel)\<rparr>
               \<in> set (proxyRequest r tunnel env port)))"
proof (intro conjI impI allI)
  assume "AuthUsername tunnel \<noteq> '''' \<or> AuthPassword tunnel \<noteq> ''''" and "BasicAuth r = None"
  then show "proxyRequest r tunnel env port =
      [SetHeader ''WWW-Authenticate'' [''Basic''], WriteHeader 401]"
    by (simp add: proxyRequest_rejected passesAuth_def)
next
  fix username password
  assume "AuthUsername tunnel \<noteq> '''' \<or> AuthPassword tunnel \<noteq> ''''"
    and "BasicAuth r = Some (username, password)
         \<and> (username \<noteq> AuthUsername tunnel \<or> password \<noteq> AuthPassword tunnel)"
  then have "\<not> passesAuth r tunnel" and "BasicAuth r \<noteq> None"
    by (auto simp: passesAuth_def)
  then show "proxyRequest r tunnel env port =
      [SetHeader ''WWW-Authenticate'' [''Basic''], WriteHeader 401, Sleep 2]"
    by (simp add: proxyRequest_rejected)
next
  assume ok: "BasicAuth r = Some (AuthUsername tunnel, AuthPassword tunnel)"
  then have p: "passesAuth r tunnel"
    by (simp add: passesAuth_def)
  have p': "passesAuth r (tunnel\<lparr>AuthUsername := '''', AuthPassword := ''''\<rparr>)"
    by (simp add: passesAuth_def)
  show "proxyRequest r tunnel env port =
      proxyRequest r (tunnel\<lparr>AuthUsername := '''', AuthPassword := ''''\<rparr>) env port"
    by (simp add: proxyRequest_forward [OF p] proxyRequest_forward [OF p']
        split: sum.splits option.splits)
next
  fix body
  assume ok: "BasicAuth r = Some (AuthUsername tunnel, AuthPassword tunnel)"
    and "Body r = Inr body \<and> newRequestErr env = None"
  moreover from ok have "passesAuth r tunnel"
    by (simp add: passesAuth_def)
  ultimately show "ClientDo \<lparr>uMethod = Method r,
                       uURL = ''http://localhost:'' @ fmt_d port @ URLRequestURI r,
                       uBody = body,
                       uHeader = (Header r)(''X-Forwarded-Host'' \<mapsto> [Host r]),
                       uHost = ClientAddress tunnel @ '':'' @ fmt_d (ClientPort tunnel)\<rparr>
               \<in> set (proxyRequest r tunnel env port)"
    by (simp add: proxyRequest_forward)
qed

theorem basic_auth_gate_witness:
  "proxyRequest request_b tunnel_b_auth env_ok 9002 =
     [SetHeader ''WWW-Authenticate'' [''Basic''], WriteHeader 401]
   \<and> proxyRequest (request_b\<lparr>BasicAuth := Some (''u'', ''wrong'')\<rparr>) tunnel_b_auth env_ok 9002 =
     [SetHeader ''WWW-Authenticate'' [''Basic''], WriteHeader 401, Sleep 2]
   \<and> ClientDo upstream_b
       \<in> set (proxyRequest (request_b\<lparr>BasicAuth := Some (''u'', ''p'')\<rparr>) tunnel_b_auth env_ok 9002)"
proof -
  have gate: "AuthUsername tunnel_b_auth \<noteq> '''' \<or> AuthPassword tunnel_b_auth \<noteq> ''''"
    by (simp add: tunnel_b_auth_def)
  from basic_auth_gate [OF gate, of request_b env_ok 9002]
    basic_auth_gate [OF gate, of "request_b\<lparr>BasicAuth := Some (''u'', ''wrong'')\<rparr>" env_ok 9002]
    basic_auth_gate [OF gate, of "request_b\<lparr>BasicAuth := Some (''u'', ''p'')\<rparr>" env_ok 9002]
  show ?thesis
    by (simp add: proxyRequest_def Let_def tunnel_b_auth_def request_b_def tunnel_b_def
        env_ok_def ok_response_def upstream_b_def fmt_d_443 fmt_d_9002)
qed

text \<open>
  C8. For a request that passes the Basic-Auth block: when \<open>httpClient.Do\<close> fails, the
  client gets 502 and the error's text as body; when reading the body or building the
  upstream request fails, it gets 500 and the error's text.
\<close>

theorem backend_errors:
  "passesAuth r tunnel \<Longrightarrow>
   (\<forall>body err. Body r = Inr body \<and> newRequestErr env = None \<and> doResult env = Inl err \<longrightarrow>
      proxyRequest r tunnel env port =
        [ReadAllBody,
         NewRequest (Method r) (''http://localhost:'' @ fmt_d port @ URLRequestURI r),
         ClientDo \<lparr>uMethod = Method r,
                   uURL = ''http://localhost:'' @ fmt_d port @ URLRequestURI r,
                   uBody = body,
                   uHeader = (Header r)(''X-Forwarded-Host'' \<mapsto> [Host r]),
                   uHost = ClientAddress tunnel @ '':'' @ fmt_d (ClientPort tunnel)\<rparr>,
         WriteHeader 502, WriteString err]
      \<and> status_of (proxyRequest r tunnel env port) = Some 502)
   \<and> (\<forall>err. Body r = Inl err \<longrightarrow>
        proxyRequest r tunnel env port = [ReadAllBody, WriteHeader 500, WriteString err]
        \<and> status_of (proxyRequest r tunnel env port) = Some 500)
   \<and> (\<forall>body err. Body r = Inr body \<and> newRequestErr env = Some err \<longrightarrow>
        proxyRequest r tunnel env port =
          [ReadAllBody,
           NewRequest (Method r) (''http://localhost:'' @ fmt_d port @ URLRequestURI r),
           WriteHeader 500, WriteString err]
        \<and> status_of (proxyRequest r tunnel env port) = Some 500)"
  by (simp add: proxyRequest_forward)

theorem backend_errors_witness:
  "proxyRequest request_b tunnel_b env_refused 9002 =
     [ReadAllBody, NewRequest ''GET'' ''http://localhost:9002/x'', ClientDo upstream_b,
      WriteHeader 502, WriteString ''connection refused'']
   \<and> status_of (proxyRequest request_b tunnel_b env_refused 9002) = Some 502
   \<and> status_of (proxyRequest (request_b\<lparr>Body := Inl ''unexpected EOF''\<rparr>) tunnel_b env_refused 9002)
       = Some 500
   \<and> status_of (proxyRequest request_b tunnel_b
        (env_refused\<lparr>newRequestErr := Some ''invalid method''\<rparr>) 9002) = Some 500"
proof -
  have p: "passesAuth r tunnel_b" for r
    by (simp add: passesAuth_def tunnel_b_def)
  from backend_errors [OF p, of request_b env_refused 9002]
    backend_errors [OF p, of "request_b\<lparr>Body := Inl ''unexpected EOF''\<rparr>" env_refused 9002]
    backend_errors [OF p, of request_b "env_refused\<lparr>newRequestErr := Some ''invalid method''\<rparr>" 9002]
  show ?thesis
    by (simp add: request_b_def env_refused_def tunnel_b_def upstream_b_def fmt_d_443 fmt_d_9002)
qed

lemma setHeader_no_NewRequest: "\<not> list_ex isNewRequest (map (\<lambda>(k, v). SetHeader k v) hs)"
  by (induction hs) auto

text \<open>
  C9. A request that passes the Basic-Auth block has its body read to the end first. When
  that read fails the client gets 500 and the run ends: no upstream request is built or
  sent. When it succeeds, \<open>http.NewRequest\<close> comes next, once, and if it succeeds the
  request handed to the HTTP client, once, carries the whole body that was read. In every
  run, a request sent to the backend is preceded by the read and by \<open>http.NewRequest\<close>.
\<close>

theorem body_read_failure_atomic:
  "(passesAuth r tunnel \<longrightarrow>
      (\<exists>es. proxyRequest r tunnel env port = ReadAllBody # es
            \<and> (\<forall>err. Body r = Inl err \<longrightarrow> es = [WriteHeader 500, WriteString err])
            \<and> (\<forall>body. Body r = Inr body \<longrightarrow>
                 (\<exists>es'. es = NewRequest (Method r)
                               (''http://localhost:'' @ fmt_d port @ URLRequestURI r) # es'
                        \<and> \<not> list_ex isNewRequest es'
                        \<and> (\<forall>err. newRequestErr env = Some err \<longrightarrow>
                             es' = [WriteHeader 500, WriteString err])
                        \<and> (newRequestErr env = None \<longrightarrow>
                             (\<exists>es''. es' =
                                ClientDo \<lparr>uMethod = Method r,
                                          uURL = ''http://localhost:'' @ fmt_d port @ URLRequestURI r,
                                          uBody = body,
                                          uHeader = (Header r)(''X-Forwarded-Host'' \<mapsto> [Host r]),
                                          uHost = ClientAddress tunnel @ '':''
                                                  @ fmt_d (ClientPort tunnel)\<rparr> # es''
                                \<and> \<not> list_ex isClientDo es''))))))
   \<and> (\<forall>err. Body r = Inl err \<longrightarrow>
      \<not> list_ex isNewRequest (proxyRequest r tunnel env port)
      \<and> \<not> list_ex isClientDo (proxyRequest r tunnel env port)
      \<and> (passesAuth r tunnel \<longrightarrow>
           proxyRequest r tunnel env port = [ReadAllBody, WriteHeader 500, WriteString err]
           \<and> status_of (proxyRequest r tunnel env port) = Some 500))
   \<and> (\<forall>q. ClientDo q \<in> set (proxyRequest r tunnel env port) \<longrightarrow>
        Body r = Inr (uBody q)
        \<and> (\<exists>es. proxyRequest r tunnel env port =
              ReadAllBody # NewRequest (uMethod q) (uURL q) # ClientDo q # es))"
proof (cases "passesAuth r tunnel")
  case False
  then show ?thesis
    by (simp add: proxyRequest_rejected)
next
  case True
  then show ?thesis
    by (auto simp: proxyRequest_forward setHeader_not_ClientDo setHeader_no_ClientDo
        setHeader_no_NewRequest split: sum.splits option.splits)
qed

theorem body_read_failure_atomic_witness:
  "proxyRequest (request_b\<lparr>Body := Inl ''unexpected EOF''\<rparr>) tunnel_b env_ok 9002 =
     [ReadAllBody, WriteHeader 500, WriteString ''unexpected EOF'']
   \<and> \<not> list_ex isClientDo (proxyRequest (request_b\<lparr>Body := Inl ''unexpected EOF''\<rparr>) tunnel_b env_ok 9002)
   \<and> proxyRequest (request_b\<lparr>Method := ''POST'', Body := Inr ''payload''\<rparr>) tunnel_b env_ok 9002 =
     [ReadAllBody, NewRequest ''POST'' ''http://localhost:9002/x'',
      ClientDo (upstream_b\<lparr>uMethod := ''POST'', uBody := ''payload''\<rparr>),
      WriteHeader 200, IoCopy ''ok'', CloseBody]"
proof -
  have p: "passesAuth r tunnel_b" for r
    by (simp add: passesAuth_def tunnel_b_def)
  from body_read_failure_atomic [of "request_b\<lparr>Body := Inl ''unexpected EOF''\<rparr>" tunnel_b env_ok 9002]
    body_read_failure_atomic [of "request_b\<lparr>Method := ''POST'', Body := Inr ''payload''\<rparr>"
      tunnel_b env_ok 9002] p
  show ?thesis
    by (simp add: proxyRequest_def Let_def request_b_def tunnel_b_def env_ok_def ok_response_def
        upstream_b_def fmt_d_443 fmt_d_9002)
qed

subsection \<open>The handler of \<open>/namedrop/auth-success\<close>\<close>

text \<open>
  C5, as it holds. In the handler of \<open>/namedrop/auth-success\<close> each of these failures
  gives the client an HTTP 500 response: the DNS request is not in the store; and, once the
  OAuth exchange has succeeded, the token data cannot be fetched or parsed or has no
  scope, the record cannot be encoded, the request to create it cannot be built or sent,
  its response cannot be read, or its status is not 200. When all of that succeeds for a
  request about the admin domain and the certificate cannot be acquired, the process exits
  (\<open>log.Fatal\<close>) and no response is written. (What a failed exchange leads to is not part
  of the statement.)
\<close>

theorem auth_success_failures:
  "(\<forall>err. getDNSRequest env = Inl err \<longrightarrow>
      authSuccess env requestId code publicIp = ([WriteHeader 500, WriteString err], Returned))
   \<and> (\<forall>d tok. getDNSRequest env = Inr d \<and> exchange env = Inr tok \<longrightarrow>
        (\<forall>err. tokenDataGet env = Inl err \<longrightarrow>
           responds500 (authSuccess env requestId code publicIp))
      \<and> (\<forall>bodyJson. tokenDataGet env = Inr bodyJson \<longrightarrow>
           (\<forall>err. unmarshalScopes env bodyJson = Inl err \<longrightarrow>
              responds500 (authSuccess env requestId code publicIp))
         \<and> (unmarshalScopes env bodyJson = Inr [] \<longrightarrow>
              responds500 (authSuccess env requestId code publicIp))
         \<and> (\<forall>scope scopes. unmarshalScopes env bodyJson = Inr (scope # scopes) \<longrightarrow>
              (\<forall>err. marshalRecord env
                        \<lparr>rDomain = ScopeDomain scope, rHost = ScopeHost scope, rType = ''A'',
                         rValue = publicIp, rTTL = 300\<rparr> = Inl err \<longrightarrow>
                 responds500 (authSuccess env requestId code publicIp))
            \<and> (\<forall>json. marshalRecord env
                        \<lparr>rDomain = ScopeDomain scope, rHost = ScopeHost scope, rType = ''A'',
                         rValue = publicIp, rTTL = 300\<rparr> = Inr json \<longrightarrow>
                 (\<forall>err. putNewRequestErr env = Some err \<longrightarrow>
                    responds500 (authSuccess env requestId code publicIp))
               \<and> (putNewRequestErr env = None \<longrightarrow>
                    (\<forall>err. putDo env = Inl err \<longrightarrow>
                       responds500 (authSuccess env requestId code publicIp))
                  \<and> (\<forall>statusCode. putDo env = Inr statusCode \<longrightarrow>
                       (\<forall>err. putReadAll env = Inl err \<longrightarrow>
                          responds500 (authSuccess env requestId code publicIp))
                     \<and> (\<forall>body. putReadAll env = Inr body \<longrightarrow>
                          (statusCode \<noteq> 200 \<longrightarrow>
                             responds500 (authSuccess env requestId code publicIp))
                        \<and> (\<forall>err. statusCode = 200 \<and> IsAdminDomain d
                                  \<and> manageSyncErr env = Some err \<longrightarrow>
                             snd (authSuccess env requestId code publicIp) = Exited
                             \<and> status_of (fst (authSuccess env requestId code publicIp)) = None))))))))"
  by (simp add: authSuccess_def responds500_def Let_def)

theorem auth_success_failures_witness:
  "responds500 (authSuccess (env_s6\<lparr>putDo := Inr 403\<rparr>) ''id'' ''c'' ''1.2.3.4'')
   \<and> responds500 (authSuccess (env_s6\<lparr>getDNSRequest := Inl ''no such request''\<rparr>) ''id'' ''c'' ''1.2.3.4'')
   \<and> snd (authSuccess (env_s6\<lparr>manageSyncErr := Some ''acme: no certificate''\<rparr>)
        ''id'' ''c'' ''1.2.3.4'') = Exited"
  using auth_success_failures [of "env_s6\<lparr>putDo := Inr 403\<rparr>" "''id''" "''c''" "''1.2.3.4''"]
    auth_success_failures [of "env_s6\<lparr>getDNSRequest := Inl ''no such request''\<rparr>" "''id''" "''c''" "''1.2.3.4''"]
    auth_success_failures [of "env_s6\<lparr>manageSyncErr := Some ''acme: no certificate''\<rparr>" "''id''" "''c''" "''1.2.3.4''"]
  by (simp add: env_s6_def responds500_def)

text \<open>
  C5 as stated fails where the certificate for the new admin domain cannot be acquired:
  the process exits without a response, so the client gets no HTTP 500.
\<close>

theorem cert_failure_counterexample:
  "snd (authSuccess (env_s6\<lparr>manageSyncErr := Some ''acme: no certificate''\<rparr>)
        ''id'' ''c'' ''1.2.3.4'') = Exited
   \<and> status_of (fst (authSuccess (env_s6\<lparr>manageSyncErr := Some ''acme: no certificate''\<rparr>)
        ''id'' ''c'' ''1.2.3.4'')) = None
   \<and> \<not> responds500 (authSuccess (env_s6\<lparr>manageSyncErr := Some ''acme: no certificate''\<rparr>)
        ''id'' ''c'' ''1.2.3.4'')"
  by (simp add: authSuccess_def env_s6_def responds500_def Let_def)

text \<open>
  Scenario S6, where every step succeeds, and the run after a failed OAuth exchange: the
  error is printed, nothing is written to the client, and the handler panics.
\<close>

lemma auth_success_s6:
  "authSuccess env_s6 ''id'' ''c'' ''1.2.3.4'' =
     ([DeleteDNSRequest ''id'', OAuthExchange ''c'',
       HttpGet ''https://takingnames.io/namedrop/token-data?access_token=tok'',
       NewRequest ''PUT'' ''https://takingnames.io/namedrop/records?access_token=tok'',
       ClientDo \<lparr>uMethod = ''PUT'',
                 uURL = ''https://takingnames.io/namedrop/records?access_token=tok'',
                 uBody = ''{}'', uHeader = Map.empty, uHost = ''takingnames.io''\<rparr>,
       FmtPrintln '''',
       SetAdminDomain ''admin.example'', ManageSync [''admin.example''],
       HttpRedirect ''https://admin.example'' 303, CloseBody, CloseBody],
      Returned)"
  by (simp add: authSuccess_def env_s6_def Let_def)

lemma failed_exchange_panics:
  "getDNSRequest env = Inr d \<Longrightarrow> exchange env = Inl err \<Longrightarrow>
   authSuccess env requestId code publicIp =
     ([DeleteDNSRequest requestId, OAuthExchange code, FmtPrintln err], Panicked)"
  by (simp add: authSuccess_def)

subsection \<open>Start-up: the first admin user\<close>

text \<open>
  C10, as it holds. At start-up, if the store has no users, the process adds the user
  \<open>admin\<close> with \<open>is_admin\<close> set and mints one token owned by \<open>admin\<close>, and exits if the
  token cannot be minted; so after a start-up that found no users and did not exit, the
  store holds a token owned by \<open>admin\<close>. If the store has the user \<open>admin\<close> already, the
  block leaves the store as it is. (What it does for a store with other users only is not
  part of the statement.)
\<close>

theorem first_admin_user:
  "(Users db = Map.empty \<longrightarrow>
      (\<forall>token. minted = Inr token \<longrightarrow>
         addAdminUser db minted =
           Some \<lparr>Users = [''admin'' \<mapsto> \<lparr>IsAdmin = True\<rparr>],
                 Tokens = (Tokens db)(token \<mapsto> \<lparr>Owner = ''admin''\<rparr>)\<rparr>)
    \<and> (\<forall>err. minted = Inl err \<longrightarrow> addAdminUser db minted = None)
    \<and> (\<forall>db'. addAdminUser db minted = Some db' \<longrightarrow>
         Users db' ''admin'' = Some \<lparr>IsAdmin = True\<rparr> \<and> hasAdminToken db'))
   \<and> (Users db ''admin'' \<noteq> None \<longrightarrow> addAdminUser db minted = Some db)"
proof -
  have "Users db \<noteq> Map.empty" if "Users db ''admin'' \<noteq> None"
    using that by auto
  then show ?thesis
    by (cases db; cases minted)
      (auto simp: addAdminUser_def AddUser_def AddToken_def hasAdminToken_def Let_def)
qed

theorem first_admin_user_witness:
  "addAdminUser db_empty (Inr ''T0'') =
     Some \<lparr>Users = [''admin'' \<mapsto> \<lparr>IsAdmin = True\<rparr>],
           Tokens = [''T0'' \<mapsto> \<lparr>Owner = ''admin''\<rparr>]\<rparr>
   \<and> hasAdminToken \<lparr>Users = [''admin'' \<mapsto> \<lparr>IsAdmin = True\<rparr>],
                     Tokens = [''T0'' \<mapsto> \<lparr>Owner = ''admin''\<rparr>]\<rparr>
   \<and> addAdminUser db_admin (Inr ''T0'') = Some db_admin"
proof -
  have e: "Users db_empty = Map.empty"
    by (simp add: db_empty_def)
  have a: "Users db_admin ''admin'' \<noteq> None"
    by (simp add: db_admin_def)
  from first_admin_user [of db_empty "Inr ''T0''"] first_admin_user [of db_admin "Inr ''T0''"] e a
  show ?thesis
    by (simp add: db_empty_def)
qed

text \<open>
  C10 as stated fails for a store that has the user \<open>admin\<close> but no token of \<open>admin\<close>:
  start-up succeeds and the store still holds no such token.
\<close>

theorem admin_without_token_counterexample:
  "Users db_admin ''admin'' = Some \<lparr>IsAdmin = True\<rparr>
   \<and> addAdminUser db_admin (Inr ''T0'') = Some db_admin
   \<and> \<not> hasAdminToken db_admin"
  by (simp add: addAdminUser_def db_admin_def hasAdminToken_def)

text \<open>
  A store with users, none of them \<open>admin\<close>: the guard looks at the number of users only,
  so no \<open>admin\<close> is added, though the comment above the block reads "Add admin user if
  it doesn't already exist".
\<close>

lemma users_without_admin_unchanged:
  "Users db_bob ''admin'' = None \<and> addAdminUser db_bob minted = Some db_bob"
  by (simp add: addAdminUser_def db_bob_def)

end
